theory Spec2Isabelle
  imports Main "HOL-Library.Multiset"
begin

section \<open>Data of the URL shortener\<close>

text \<open>
  The package \<^verbatim>\<open>urlshort\<close> builds HTTP handlers that redirect a request whose path is
  a key of a table and hand every other request to a fallback handler. Go's \<^verbatim>\<open>[]byte\<close>
  and \<^verbatim>\<open>string\<close> are both byte sequences, here \<^typ>\<open>string\<close>. A Go \<^verbatim>\<open>error\<close> is an
  opaque value carrying a message; \<^verbatim>\<open>nil\<close> is \<^term>\<open>None\<close> of an option.
\<close>

type_synonym bytes = string

datatype error = Error string

text \<open>\<^verbatim>\<open>type pathURL struct { Path string; URL string }\<close>\<close>

record pathURL =
  Path :: string
  URL :: string

text \<open>
  The fields of \<^verbatim>\<open>*http.Request\<close> that the program and the library calls it makes read.
  \<open>URLPath\<close> stands for \<^verbatim>\<open>r.URL.Path\<close>, \<open>RawQuery\<close> for \<^verbatim>\<open>r.URL.RawQuery\<close>.
\<close>

record Request =
  Method :: string
  URLPath :: string
  RawQuery :: string
  RequestURI :: string
  ProtoMajor :: nat
  ProtoMinor :: nat
  Host :: string
  ReqHeader :: "string \<rightharpoonup> string list"
  ReqBody :: bytes

text \<open>
  The state behind an \<^verbatim>\<open>http.ResponseWriter\<close>, as a handler acts on it: the header map
  the handlers set, the status code (\<^term>\<open>None\<close> until the header has been written) and
  the bytes the handlers have written as body. What the server makes of these on the
  connection (the headers it adds, no body in the answer to a HEAD request) is behind
  the writer and not part of the state.
\<close>

record ResponseWriter =
  header :: "string \<rightharpoonup> string list"
  status :: "nat option"
  body :: bytes

text \<open>
  A handler (\<^verbatim>\<open>http.Handler\<close>, \<^verbatim>\<open>http.HandlerFunc\<close>) acts on the writer it is given;
  the model returns the writer's new state.
\<close>

type_synonym Handler = "ResponseWriter \<Rightarrow> Request \<Rightarrow> ResponseWriter"

section \<open>The library calls of the program\<close>

text \<open>
  The Go library is not part of the repository. What the program calls of it is modelled
  here after the library's code (net/http, net/url, path and flag as they stood before
  the mux was rewritten in Go 1.22), as far as a handler's writer shows it.
\<close>

subsection \<open>Strings\<close>

definition HasPrefix :: "string \<Rightarrow> string \<Rightarrow> bool" where
  "HasPrefix s p = (take (length p) s = p)"

definition HasSuffix :: "string \<Rightarrow> string \<Rightarrow> bool" where
  "HasSuffix s p = (length p \<le> length s \<and> drop (length s - length p) s = p)"

text \<open>The part of a string before the first occurrence of a byte, and the part from it on.\<close>

definition before :: "char \<Rightarrow> string \<Rightarrow> string" where
  "before c s = takeWhile (\<lambda>x. x \<noteq> c) s"

definition from_on :: "char \<Rightarrow> string \<Rightarrow> string" where
  "from_on c s = dropWhile (\<lambda>x. x \<noteq> c) s"

definition byte :: "char \<Rightarrow> nat" where
  "byte c = of_char c"

definition isLetter :: "char \<Rightarrow> bool" where
  "isLetter c = (97 \<le> byte c \<and> byte c \<le> 122 \<or> 65 \<le> byte c \<and> byte c \<le> 90)"

definition isDigit :: "char \<Rightarrow> bool" where
  "isDigit c = (48 \<le> byte c \<and> byte c \<le> 57)"

definition ishex :: "char \<Rightarrow> bool" where
  "ishex c = (isDigit c \<or> 97 \<le> byte c \<and> byte c \<le> 102 \<or> 65 \<le> byte c \<and> byte c \<le> 70)"

definition hexdigit :: "string \<Rightarrow> nat \<Rightarrow> char" where
  "hexdigit digits n = digits ! (n mod 16)"

text \<open>
  \<^verbatim>\<open>hexEscapeNonASCII\<close>: every byte from 0x80 on becomes a percent sign and its two
  lower-case hexadecimal digits.
\<close>

definition hexEscapeNonASCII :: "string \<Rightarrow> string" where
  "hexEscapeNonASCII s =
     concat (map (\<lambda>c. if 128 \<le> byte c
                       then [CHR ''%'', hexdigit ''0123456789abcdef'' (byte c div 16),
                             hexdigit ''0123456789abcdef'' (byte c)]
                       else [c]) s)"

text \<open>\<^verbatim>\<open>htmlEscape\<close> replaces the five bytes HTML gives a meaning to.\<close>

definition htmlEscape :: "string \<Rightarrow> string" where
  "htmlEscape s =
     concat (map (\<lambda>c. if c = CHR ''&'' then ''&amp;''
                       else if c = CHR ''<'' then ''&lt;''
                       else if c = CHR ''>'' then ''&gt;''
                       else if c = CHR 0x22 then ''&#34;''
                       else if c = CHR 0x27 then ''&#39;''
                       else [c]) s)"

subsection \<open>Package path\<close>

text \<open>The elements of a path: the pieces between its slashes.\<close>

fun elements :: "string \<Rightarrow> string list" where
  "elements [] = [[]]"
| "elements (c # cs) =
     (if c = CHR ''/'' then [] # elements cs
      else (case elements cs of e # es \<Rightarrow> (c # e) # es | [] \<Rightarrow> [[c]]))"

fun join :: "string list \<Rightarrow> string" where
  "join [] = []"
| "join [e] = e"
| "join (e # es) = e @ CHR ''/'' # join es"

text \<open>
  \<^verbatim>\<open>path.Clean\<close>, element by element, with the elements kept so far on a stack (the last
  one first): an empty element and \<^verbatim>\<open>.\<close> are dropped; \<^verbatim>\<open>..\<close> removes the element before it
  when there is one that is not itself \<^verbatim>\<open>..\<close>, is dropped at the root of a rooted path,
  and is kept otherwise. The empty result is \<^verbatim>\<open>.\<close>.
\<close>

fun clean_elements :: "bool \<Rightarrow> string list \<Rightarrow> string list \<Rightarrow> string list" where
  "clean_elements rooted out [] = out"
| "clean_elements rooted out (e # es) =
     (if e = [] \<or> e = ''.'' then clean_elements rooted out es
      else if e = ''..'' then
        (if out \<noteq> [] \<and> hd out \<noteq> ''..'' then clean_elements rooted (tl out) es
         else if \<not> rooted then clean_elements rooted (''..'' # out) es
         else clean_elements rooted out es)
      else clean_elements rooted (e # out) es)"

definition path_Clean :: "string \<Rightarrow> string" where
  "path_Clean path =
     (if path = [] then ''.''
      else
        (let rooted = (hd path = CHR ''/'');
             out = join (rev (clean_elements rooted [] (elements path)));
             cleaned = (if rooted then CHR ''/'' # out else out)
         in if cleaned = [] then ''.'' else cleaned))"

text \<open>\<^verbatim>\<open>path.Split\<close>: the directory is the path up to and with its last slash.\<close>

definition path_Split :: "string \<Rightarrow> string \<times> string" where
  "path_Split path =
     (rev (dropWhile (\<lambda>c. c \<noteq> CHR ''/'') (rev path)),
      rev (takeWhile (\<lambda>c. c \<noteq> CHR ''/'') (rev path)))"

subsection \<open>Package net/url\<close>

text \<open>
  \<^verbatim>\<open>getScheme\<close>: the scheme before the first colon and the rest, no scheme when a byte
  that no scheme has comes first, and an error (\<^term>\<open>None\<close>) for a leading colon.
\<close>

fun getScheme_loop :: "string \<Rightarrow> nat \<Rightarrow> string \<Rightarrow> (string \<times> string) option" where
  "getScheme_loop rawURL i [] = Some ([], rawURL)"
| "getScheme_loop rawURL i (c # cs) =
     (if isLetter c then getScheme_loop rawURL (Suc i) cs
      else if isDigit c \<or> c = CHR ''+'' \<or> c = CHR ''-'' \<or> c = CHR ''.'' then
        (if i = 0 then Some ([], rawURL) else getScheme_loop rawURL (Suc i) cs)
      else if c = CHR '':'' then
        (if i = 0 then None else Some (take i rawURL, cs))
      else Some ([], rawURL))"

definition getScheme :: "string \<Rightarrow> (string \<times> string) option" where
  "getScheme rawURL = getScheme_loop rawURL 0 rawURL"

definition stringContainsCTLByte :: "string \<Rightarrow> bool" where
  "stringContainsCTLByte s = (\<exists>c \<in> set s. byte c < 32 \<or> byte c = 127)"

text \<open>
  What makes \<^verbatim>\<open>unescape\<close> fail on a path, a fragment or user information: a percent sign
  that two hexadecimal digits do not follow.
\<close>

fun badEscape :: "string \<Rightarrow> bool" where
  "badEscape [] = False"
| "badEscape (c # cs) =
     (if c = CHR ''%'' then
        (case cs of
           a # b # rest \<Rightarrow> (if ishex a \<and> ishex b then badEscape rest else True)
         | _ \<Rightarrow> True)
      else badEscape cs)"

definition validUserinfo :: "string \<Rightarrow> bool" where
  "validUserinfo s =
     (\<forall>c \<in> set s. isLetter c \<or> isDigit c \<or> c \<in> set (''-._:~!$&()*+,;=%@'' @ [CHR 0x27]))"

text \<open>
  \<^verbatim>\<open>parseAuthority\<close> gives an empty host without an error: \<^verbatim>\<open>parseHost\<close> returns an error
  or a host that is not empty for every argument but the empty one, so the part behind
  the last \<^verbatim>\<open>@\<close> is empty, and the user information before it, if any, is valid and
  unescapes.
\<close>

definition authority_without_host :: "string \<Rightarrow> bool" where
  "authority_without_host authority =
     (if CHR ''@'' \<in> set authority then
        (let hostport = rev (before (CHR ''@'') (rev authority));
             userinfo = rev (drop 1 (from_on (CHR ''@'') (rev authority)))
         in hostport = [] \<and> validUserinfo userinfo \<and>
            \<not> badEscape (before (CHR '':'') userinfo) \<and>
            \<not> badEscape (drop 1 (from_on (CHR '':'') userinfo)))
      else authority = [])"

text \<open>
  \<^verbatim>\<open>url.Parse\<close>, as far as \<^verbatim>\<open>http.Redirect\<close> looks at it: whether it returns no error and
  a URL with neither scheme nor host. The steps are those of \<^verbatim>\<open>Parse\<close>: the fragment is
  cut off, control bytes are refused, the scheme is taken, the query is cut off, a colon
  in the first segment of a path that is not rooted is refused, an authority after two
  (not three) slashes is parsed, and the path and the fragment are unescaped.
\<close>

definition parsesAsRelative :: "string \<Rightarrow> bool" where
  "parsesAsRelative rawURL =
     (let u = before (CHR ''#'') rawURL;
          frag = drop 1 (from_on (CHR ''#'') rawURL)
      in \<not> stringContainsCTLByte u \<and>
         (case getScheme u of
            None \<Rightarrow> False
          | Some (scheme, rest0) \<Rightarrow>
              scheme = [] \<and>
              (let rest = before (CHR ''?'') rest0 in
                 (HasPrefix rest ''/'' \<or> CHR '':'' \<notin> set (before (CHR ''/'') rest)) \<and>
                 (if HasPrefix rest ''//'' \<and> \<not> HasPrefix rest ''///''
                  then authority_without_host (before (CHR ''/'') (drop 2 rest)) \<and>
                       \<not> badEscape (from_on (CHR ''/'') (drop 2 rest))
                  else \<not> badEscape rest))) \<and>
         \<not> badEscape frag)"

text \<open>
  \<^verbatim>\<open>escape\<close> in the mode of a path: letters, digits and the bytes
  \<^verbatim>\<open>-_.~$&+,/:;=@\<close> stay, every other byte becomes a percent sign and its two upper-case
  hexadecimal digits.
\<close>

definition shouldEscape :: "char \<Rightarrow> bool" where
  "shouldEscape c = (\<not> (isLetter c \<or> isDigit c \<or> c \<in> set ''-_.~$&+,/:;=@''))"

definition escape :: "string \<Rightarrow> string" where
  "escape s =
     concat (map (\<lambda>c. if shouldEscape c
                       then [CHR ''%'', hexdigit ''0123456789ABCDEF'' (byte c div 16),
                             hexdigit ''0123456789ABCDEF'' (byte c)]
                       else [c]) s)"

text \<open>
  \<^verbatim>\<open>String\<close> of a \<^verbatim>\<open>url.URL\<close> that has a path and a query only, as the mux builds it.
\<close>

definition URL_String :: "string \<Rightarrow> string \<Rightarrow> string" where
  "URL_String path rawQuery =
     (let escaped = (if path = ''*'' then ''*'' else escape path)
      in (if CHR '':'' \<in> set (before (CHR ''/'') escaped) then ''./'' else []) @ escaped @
         (if rawQuery \<noteq> [] then CHR ''?'' # rawQuery else []))"

subsection \<open>Package net/http\<close>

definition StatusOK :: nat where
  "StatusOK = 200"

definition StatusMovedPermanently :: nat where
  "StatusMovedPermanently = 301"

definition StatusFound :: nat where
  "StatusFound = 302"

definition StatusBadRequest :: nat where
  "StatusBadRequest = 400"

definition StatusNotFound :: nat where
  "StatusNotFound = 404"

text \<open>
  \<^verbatim>\<open>StatusText\<close> for the codes this program and the mux reply with; the library has a
  text for the other registered codes as well.
\<close>

definition StatusText :: "nat \<Rightarrow> string" where
  "StatusText code =
     (if code = 200 then ''OK''
      else if code = 301 then ''Moved Permanently''
      else if code = 302 then ''Found''
      else if code = 400 then ''Bad Request''
      else if code = 404 then ''Not Found''
      else [])"

text \<open>
  \<^verbatim>\<open>WriteHeader\<close> fixes the status once, \<^verbatim>\<open>Write\<close> fixes it to 200 if nothing did and
  appends to the body, \<^verbatim>\<open>Header().Set\<close> replaces the values of a header.
\<close>

definition WriteHeader :: "ResponseWriter \<Rightarrow> nat \<Rightarrow> ResponseWriter" where
  "WriteHeader rw code =
     (case status rw of None \<Rightarrow> rw\<lparr>status := Some code\<rparr> | Some c \<Rightarrow> rw)"

definition Write :: "ResponseWriter \<Rightarrow> bytes \<Rightarrow> ResponseWriter" where
  "Write rw dat = (let rw1 = WriteHeader rw StatusOK in rw1\<lparr>body := body rw1 @ dat\<rparr>)"

definition Header_Set :: "ResponseWriter \<Rightarrow> string \<Rightarrow> string \<Rightarrow> ResponseWriter" where
  "Header_Set rw k v = rw\<lparr>header := (header rw)(k \<mapsto> [v])\<rparr>"

text \<open>The writer the server hands to the root handler for each request.\<close>

definition newResponse :: ResponseWriter where
  "newResponse = \<lparr>header = Map.empty, status = None, body = []\<rparr>"

text \<open>
  \<^verbatim>\<open>http.Redirect\<close>, first part: the target that goes into the \<^verbatim>\<open>Location\<close> header. A
  target that parses as a URL with neither scheme nor host is made absolute: when it does
  not begin with a slash it is put behind the directory of the request path, then its
  path (the part before the first question mark) is cleaned, keeping a trailing slash.
  Every other target stays as it is.
\<close>

definition redirectTarget :: "Request \<Rightarrow> string \<Rightarrow> string" where
  "redirectTarget r url =
     (if parsesAsRelative url then
        (let oldpath = (if URLPath r = [] then ''/'' else URLPath r);
             url1 = (if url = [] \<or> hd url \<noteq> CHR ''/''
                     then fst (path_Split oldpath) @ url else url);
             query = from_on (CHR ''?'') url1;
             url2 = before (CHR ''?'') url1;
             trailing = HasSuffix url2 ''/'';
             url3 = path_Clean url2;
             url4 = (if trailing \<and> \<not> HasSuffix url3 ''/'' then url3 @ ''/'' else url3)
         in url4 @ query)
      else url)"

text \<open>
  \<^verbatim>\<open>http.Redirect\<close>: the \<^verbatim>\<open>Location\<close> header, a content type for GET and HEAD and a short
  HTML body for GET unless a content type was set before, and the status.
\<close>

definition Redirect :: "ResponseWriter \<Rightarrow> Request \<Rightarrow> string \<Rightarrow> nat \<Rightarrow> ResponseWriter" where
  "Redirect w r url code =
     (let target = redirectTarget r url;
          hadCT = (header w ''Content-Type'' \<noteq> None);
          w1 = Header_Set w ''Location'' (hexEscapeNonASCII target);
          w2 = (if \<not> hadCT \<and> (Method r = ''GET'' \<or> Method r = ''HEAD'')
                then Header_Set w1 ''Content-Type'' ''text/html; charset=utf-8'' else w1);
          w3 = WriteHeader w2 code
      in if \<not> hadCT \<and> Method r = ''GET''
         then Write w3 (''<a href='' @ [CHR 0x22] @ htmlEscape target @ [CHR 0x22] @ ''>'' @
                        StatusText code @ ''</a>.'' @ [CHR 0x0A, CHR 0x0A])
         else w3)"

definition RedirectHandler :: "string \<Rightarrow> nat \<Rightarrow> Handler" where
  "RedirectHandler url code = (\<lambda>w r. Redirect w r url code)"

text \<open>\<^verbatim>\<open>http.Error\<close> and \<^verbatim>\<open>http.NotFound\<close>.\<close>

definition http_Error :: "ResponseWriter \<Rightarrow> string \<Rightarrow> nat \<Rightarrow> ResponseWriter" where
  "http_Error w msg code =
     (let w1 = Header_Set w ''Content-Type'' ''text/plain; charset=utf-8'';
          w2 = Header_Set w1 ''X-Content-Type-Options'' ''nosniff'';
          w3 = WriteHeader w2 code
      in Write w3 (msg @ [CHR 0x0A]))"

definition NotFound :: Handler where
  "NotFound w r = http_Error w ''404 page not found'' StatusNotFound"

text \<open>
  \<^verbatim>\<open>http.ServeMux\<close>: the registered patterns with their handlers. The patterns of this
  model are paths (they begin with a slash), like the one the program registers; the
  library also knows patterns that begin with a host name. \<^verbatim>\<open>HandleFunc\<close> panics in
  the library on an empty pattern and on a pattern registered twice; neither happens in
  the program.
\<close>

type_synonym ServeMux = "(string \<times> Handler) list"

definition NewServeMux :: ServeMux where
  "NewServeMux = []"

definition HandleFunc :: "ServeMux \<Rightarrow> string \<Rightarrow> Handler \<Rightarrow> ServeMux" where
  "HandleFunc mux pattern handler = mux @ [(pattern, handler)]"

text \<open>
  \<^verbatim>\<open>match\<close>: the handler registered for exactly the path, else the handler of the longest
  pattern with a trailing slash that the path begins with.
\<close>

fun longest_match :: "ServeMux \<Rightarrow> string \<Rightarrow> (string \<times> Handler) option \<Rightarrow> (string \<times> Handler) option" where
  "longest_match [] path best = best"
| "longest_match ((pattern, h) # es) path best =
     (if pattern \<noteq> [] \<and> last pattern = CHR ''/'' \<and> HasPrefix path pattern \<and>
         (case best of None \<Rightarrow> True | Some (p, _) \<Rightarrow> length p < length pattern)
      then longest_match es path (Some (pattern, h))
      else longest_match es path best)"

definition mux_match :: "ServeMux \<Rightarrow> string \<Rightarrow> Handler option" where
  "mux_match mux path =
     (case map_of mux path of
        Some h \<Rightarrow> Some h
      | None \<Rightarrow> map_option snd (longest_match mux path None))"

definition mux_handler :: "ServeMux \<Rightarrow> string \<Rightarrow> Handler" where
  "mux_handler mux path = (case mux_match mux path of Some h \<Rightarrow> h | None \<Rightarrow> NotFound)"

text \<open>
  \<^verbatim>\<open>cleanPath\<close>: the canonical form of a request path, rooted and cleaned, with its
  trailing slash kept.
\<close>

definition cleanPath :: "string \<Rightarrow> string" where
  "cleanPath p0 =
     (if p0 = [] then ''/''
      else
        (let p = (if hd p0 \<noteq> CHR ''/'' then CHR ''/'' # p0 else p0);
             np = path_Clean p
         in if last p = CHR ''/'' \<and> np \<noteq> ''/''
            then (if length p = length np + 1 \<and> HasPrefix p np then p else np @ ''/'')
            else np))"

text \<open>
  \<^verbatim>\<open>shouldRedirectRLocked\<close>: the path is not registered, but the path with a slash added
  is.
\<close>

definition shouldRedirect :: "ServeMux \<Rightarrow> string \<Rightarrow> bool" where
  "shouldRedirect mux path =
     (map_of mux path = None \<and> path \<noteq> [] \<and>
      map_of mux (path @ ''/'') \<noteq> None \<and> last path \<noteq> CHR ''/'')"

text \<open>
  \<^verbatim>\<open>ServeMux.Handler\<close>: a CONNECT request is matched as it is; the path of any other
  request is cleaned first, and a request whose path is not clean is answered with a
  permanent redirect to the clean path.
\<close>

definition mux_Handler :: "ServeMux \<Rightarrow> Request \<Rightarrow> Handler" where
  "mux_Handler mux r =
     (if Method r = ''CONNECT'' then
        (if shouldRedirect mux (URLPath r)
         then RedirectHandler (URL_String (URLPath r @ ''/'') (RawQuery r)) StatusMovedPermanently
         else mux_handler mux (URLPath r))
      else
        (let path = cleanPath (URLPath r) in
           if shouldRedirect mux path
           then RedirectHandler (URL_String (path @ ''/'') (RawQuery r)) StatusMovedPermanently
           else if path \<noteq> URLPath r
           then RedirectHandler (URL_String path (RawQuery r)) StatusMovedPermanently
           else mux_handler mux (URLPath r)))"

definition ProtoAtLeast :: "Request \<Rightarrow> nat \<Rightarrow> nat \<Rightarrow> bool" where
  "ProtoAtLeast r major minor =
     (major < ProtoMajor r \<or> ProtoMajor r = major \<and> minor \<le> ProtoMinor r)"

text \<open>\<^verbatim>\<open>ServeMux.ServeHTTP\<close>: a request for \<^verbatim>\<open>*\<close> is a bad request; else the handler found.\<close>

definition ServeHTTP :: "ServeMux \<Rightarrow> Handler" where
  "ServeHTTP mux w r =
     (if RequestURI r = ''*'' then
        WriteHeader (if ProtoAtLeast r 1 1 then Header_Set w ''Connection'' ''close'' else w)
          StatusBadRequest
      else mux_Handler mux r w r)"

subsection \<open>Package flag\<close>

text \<open>
  \<^verbatim>\<open>flag.Parse\<close> over flags that take a string: the arguments are read up to the first
  that is no flag (or up to \<^verbatim>\<open>--\<close>); a flag is \<^verbatim>\<open>-name=value\<close>, or \<^verbatim>\<open>-name\<close> with the value
  in the next argument, with one or two dashes. The result is the values given, or the
  error that ends the program: the help asked for, or a message.
\<close>

datatype flagError = ErrHelp | FlagError string

fun flag_parse ::
  "string list \<Rightarrow> (string \<rightharpoonup> string) \<Rightarrow> string list \<Rightarrow> flagError + (string \<rightharpoonup> string)" where
  "flag_parse formal actual [] = Inr actual"
| "flag_parse formal actual (s # args) =
     (if length s < 2 \<or> hd s \<noteq> CHR ''-'' then Inr actual
      else if s = ''--'' then Inr actual
      else
        (let numMinuses = (if s ! 1 = CHR ''-'' then 2 else 1::nat);
             name0 = drop numMinuses s
         in if name0 = [] \<or> hd name0 = CHR ''-'' \<or> hd name0 = CHR ''=''
            then Inl (FlagError (''bad flag syntax: '' @ s))
            else
              (let hasValue = (CHR ''='' \<in> set (tl name0));
                   name = hd name0 # before (CHR ''='') (tl name0);
                   val = drop 1 (from_on (CHR ''='') (tl name0))
               in if name \<notin> set formal then
                    (if name = ''help'' \<or> name = ''h'' then Inl ErrHelp
                     else Inl (FlagError (''flag provided but not defined: -'' @ name)))
                  else if hasValue then flag_parse formal (actual(name \<mapsto> val)) args
                  else
                    (case args of
                       [] \<Rightarrow> Inl (FlagError (''flag needs an argument: -'' @ name))
                     | v # args' \<Rightarrow> flag_parse formal (actual(name \<mapsto> v)) args'))))"

subsection \<open>Files and parsers\<close>

text \<open>
  The outside world of the constructors. \<^verbatim>\<open>ioutil.ReadFile\<close> gives the content of a
  named file or an error; \<^verbatim>\<open>yaml.Unmarshal\<close> and \<^verbatim>\<open>json.Unmarshal\<close> fill a slice of
  records from bytes and may report an error (possibly after having filled part of the
  slice). They are parameters of the model: a pair of what was read or filled and the
  error, \<^term>\<open>None\<close> for \<^verbatim>\<open>nil\<close>.
\<close>

type_synonym ReadFile = "string \<Rightarrow> bytes \<times> error option"

type_synonym Unmarshal = "bytes \<Rightarrow> pathURL list \<times> error option"

section \<open>The package urlshort\<close>

text \<open>\<^verbatim>\<open>MapHandler\<close>: redirect when the request path is a key of the map, else the fallback.\<close>

definition MapHandler :: "(string \<rightharpoonup> string) \<Rightarrow> Handler \<Rightarrow> Handler" where
  "MapHandler pathsToUrls fallbackHandler = (\<lambda>rw r.
     let currentPath = URLPath r in
     case pathsToUrls currentPath of
       Some destination \<Rightarrow> Redirect rw r destination StatusFound
     | None \<Rightarrow> fallbackHandler rw r)"

text \<open>\<^verbatim>\<open>pathSliceToMapConversion\<close>: the loop over the slice, with the map built so far.\<close>

fun pathSliceToMapConversion_loop ::
  "(string \<rightharpoonup> string) \<Rightarrow> pathURL list \<Rightarrow> (string \<rightharpoonup> string)" where
  "pathSliceToMapConversion_loop result [] = result"
| "pathSliceToMapConversion_loop result (pU # pUrls) =
     pathSliceToMapConversion_loop (result(Path pU \<mapsto> URL pU)) pUrls"

definition pathSliceToMapConversion :: "pathURL list \<Rightarrow> (string \<rightharpoonup> string)" where
  "pathSliceToMapConversion pUrls = pathSliceToMapConversion_loop Map.empty pUrls"

text \<open>
  \<^verbatim>\<open>parseYAMLToPathURL\<close> and \<^verbatim>\<open>parseJSONToPathURL\<close>: on an error of the library the
  slice is dropped (\<^verbatim>\<open>return nil, err\<close>).
\<close>

definition parseYAMLToPathURL :: "Unmarshal \<Rightarrow> bytes \<Rightarrow> pathURL list \<times> error option" where
  "parseYAMLToPathURL yaml_Unmarshal dat =
     (case yaml_Unmarshal dat of
        (pathURLs, Some err) \<Rightarrow> ([], Some err)
      | (pathURLs, None) \<Rightarrow> (pathURLs, None))"

definition parseJSONToPathURL :: "Unmarshal \<Rightarrow> bytes \<Rightarrow> pathURL list \<times> error option" where
  "parseJSONToPathURL json_Unmarshal dat =
     (case json_Unmarshal dat of
        (pathsToURLs, Some err) \<Rightarrow> ([], Some err)
      | (pathsToURLs, None) \<Rightarrow> (pathsToURLs, None))"

definition openFile :: "ReadFile \<Rightarrow> string \<Rightarrow> bytes \<times> error option" where
  "openFile ioutil_ReadFile fileName =
     (case ioutil_ReadFile fileName of
        (fileByte, Some err) \<Rightarrow> ([], Some err)
      | (fileByte, None) \<Rightarrow> (fileByte, None))"

text \<open>The constructors return a pair \<^verbatim>\<open>(http.HandlerFunc, error)\<close>, each possibly \<^verbatim>\<open>nil\<close>.\<close>

definition YAMLHandler :: "Unmarshal \<Rightarrow> bytes \<Rightarrow> Handler \<Rightarrow> Handler option \<times> error option" where
  "YAMLHandler yaml_Unmarshal yml fallbackHandler =
     (case parseYAMLToPathURL yaml_Unmarshal yml of
        (pathURLs, Some err) \<Rightarrow> (None, Some err)
      | (pathURLs, None) \<Rightarrow>
          (let pathsToURLs = pathSliceToMapConversion pathURLs
           in (Some (MapHandler pathsToURLs fallbackHandler), None)))"

definition JSONFileHandler ::
  "ReadFile \<Rightarrow> Unmarshal \<Rightarrow> string \<Rightarrow> Handler \<Rightarrow> Handler option \<times> error option" where
  "JSONFileHandler ioutil_ReadFile json_Unmarshal jsonFileName fallbackHandler =
     (case openFile ioutil_ReadFile jsonFileName of
        (jsonData, Some err) \<Rightarrow> (None, Some err)
      | (jsonData, None) \<Rightarrow>
          (case parseJSONToPathURL json_Unmarshal jsonData of
             (pathURLs, Some err) \<Rightarrow> (None, Some err)
           | (pathURLs, None) \<Rightarrow>
               (let pathsToURLs = pathSliceToMapConversion pathURLs
                in (Some (MapHandler pathsToURLs fallbackHandler), None))))"

definition YAMLFileHandler ::
  "ReadFile \<Rightarrow> Unmarshal \<Rightarrow> string \<Rightarrow> Handler \<Rightarrow> Handler option \<times> error option" where
  "YAMLFileHandler ioutil_ReadFile yaml_Unmarshal yamlFileName fallbackHandler =
     (case openFile ioutil_ReadFile yamlFileName of
        (yamlBytes, Some err) \<Rightarrow> (None, Some err)
      | (yamlBytes, None) \<Rightarrow> YAMLHandler yaml_Unmarshal yamlBytes fallbackHandler)"
section \<open>The command\<close>

text \<open>\<^verbatim>\<open>hello\<close> prints the greeting and a newline to the writer.\<close>

definition hello :: Handler where
  "hello w r = Write w (''Hello, world!'' @ [CHR 0x0A])"

definition defaultMux :: ServeMux where
  "defaultMux = (let mux = NewServeMux in HandleFunc mux ''/'' hello)"

text \<open>
  \<^verbatim>\<open>flag.String\<close> defines a flag with its default; after \<^verbatim>\<open>flag.Parse\<close> it holds the value
  given on the command line, else the default. \<^verbatim>\<open>main\<close> defines the flags \<^verbatim>\<open>json\<close> and
  \<^verbatim>\<open>yaml\<close>.
\<close>

definition flag_String :: "(string \<rightharpoonup> string) \<Rightarrow> string \<Rightarrow> string \<Rightarrow> string" where
  "flag_String actual name dflt = (case actual name of Some v \<Rightarrow> v | None \<Rightarrow> dflt)"

definition main_flags :: "string list" where
  "main_flags = [''json'', ''yaml'']"

definition main_pathsToUrls :: "string \<rightharpoonup> string" where
  "main_pathsToUrls =
     [''/urlshort-godoc'' \<mapsto> ''https://godoc.org/github.com/gophercises/urlshort'',
      ''/yaml-godoc'' \<mapsto> ''https://godoc.org/gopkg.in/yaml.v2'']"

definition main_yaml :: bytes where
  "main_yaml =
     [CHR 0x0A] @ ''- path: /urlshort'' @
     [CHR 0x0A] @ ''  url: https://github.com/gophercises/urlshort'' @
     [CHR 0x0A] @ ''- path: /urlshort-final'' @
     [CHR 0x0A] @ ''  url: https://github.com/gophercises/urlshort/tree/solution'' @
     [CHR 0x0A]"

text \<open>
  What \<^verbatim>\<open>main\<close> ends in, given the arguments of the command line: the exit of
  \<^verbatim>\<open>flag.Parse\<close> on arguments it refuses, a panic with the error of a constructor, or the
  server listening on an address with a root handler, after the line printed to standard
  output. A constructor returns a handler exactly when it returns no error, so the case
  of neither (where \<^verbatim>\<open>main\<close> would go on with a \<^verbatim>\<open>nil\<close> handler, whose first call panics)
  does not arise; it ends the model's \<^verbatim>\<open>main\<close> in a panic as well.
\<close>

datatype outcome = Exit flagError | Panic error | ListenAndServe string string Handler

definition main ::
  "ReadFile \<Rightarrow> Unmarshal \<Rightarrow> Unmarshal \<Rightarrow> string list \<Rightarrow> outcome" where
  "main ioutil_ReadFile yaml_Unmarshal json_Unmarshal args =
     (case flag_parse main_flags Map.empty args of
        Inl err \<Rightarrow> Exit err
      | Inr actual \<Rightarrow>
     (let jsonFileName = flag_String actual ''json'' ''paths.json'';
          yamlFileName = flag_String actual ''yaml'' ''paths.yaml'';
          mux = defaultMux;
          mapHandler = MapHandler main_pathsToUrls (ServeHTTP mux)
      in case YAMLHandler yaml_Unmarshal main_yaml mapHandler of
           (_, Some err) \<Rightarrow> Panic err
         | (None, None) \<Rightarrow> Panic (Error ''nil handler'')
         | (Some yamlHandler, None) \<Rightarrow>
             (case JSONFileHandler ioutil_ReadFile json_Unmarshal jsonFileName yamlHandler of
                (_, Some err) \<Rightarrow> Panic err
              | (None, None) \<Rightarrow> Panic (Error ''nil handler'')
              | (Some jsonFileHandler, None) \<Rightarrow>
                  (case YAMLFileHandler ioutil_ReadFile yaml_Unmarshal yamlFileName jsonFileHandler of
                     (_, Some err) \<Rightarrow> Panic err
                   | (None, None) \<Rightarrow> Panic (Error ''nil handler'')
                   | (Some yamlFileHandler, None) \<Rightarrow>
                       ListenAndServe (''Starting the server on :8080'' @ [CHR 0x0A])
                         '':8080'' yamlFileHandler))))"

section \<open>Facts about the library model and the table builder\<close>

text \<open>What the writer shows after the library calls.\<close>

lemma WriteHeader_header [simp]: "header (WriteHeader w code) = header w"
  by (simp add: WriteHeader_def split: option.splits)

lemma WriteHeader_status_fresh: "status w = None \<Longrightarrow> status (WriteHeader w code) = Some code"
  by (simp add: WriteHeader_def)

lemma WriteHeader_status_set: "status w = Some c \<Longrightarrow> WriteHeader w code = w"
  by (simp add: WriteHeader_def)

lemma Write_header [simp]: "header (Write w dat) = header w"
  by (simp add: Write_def Let_def)

lemma Write_status_set: "status w = Some c \<Longrightarrow> status (Write w dat) = Some c"
  by (simp add: Write_def Let_def WriteHeader_def)

lemma Header_Set_status [simp]: "status (Header_Set w k v) = status w"
  by (simp add: Header_Set_def)

lemma Redirect_status:
  "status w = None \<Longrightarrow> status (Redirect w r url code) = Some code"
  by (simp add: Redirect_def Let_def WriteHeader_status_fresh Write_status_set)

lemma Redirect_Location:
  "header (Redirect w r url code) ''Location'' = Some [hexEscapeNonASCII (redirectTarget r url)]"
  by (simp add: Redirect_def Let_def Header_Set_def)

lemma hexEscapeNonASCII_ascii:
  "\<forall>c \<in> set s. byte c < 128 \<Longrightarrow> hexEscapeNonASCII s = s"
  by (induction s) (simp_all add: hexEscapeNonASCII_def)

lemma redirectTarget_not_relative:
  "\<not> parsesAsRelative url \<Longrightarrow> redirectTarget r url = url"
  by (simp add: redirectTarget_def)

lemma redirectTarget_reads_path:
  "URLPath r1 = URLPath r2 \<Longrightarrow> redirectTarget r1 url = redirectTarget r2 url"
  by (simp add: redirectTarget_def)

lemma path_Clean_rooted:
  "p \<noteq> [] \<Longrightarrow> hd p = CHR ''/'' \<Longrightarrow> path_Clean p \<noteq> [] \<and> hd (path_Clean p) = CHR ''/''"
  by (simp add: path_Clean_def Let_def)

lemma cleanPath_rooted: "cleanPath p \<noteq> [] \<and> hd (cleanPath p) = CHR ''/''"
proof (cases "p = []")
  case True
  then show ?thesis by (simp add: cleanPath_def)
next
  case False
  define q where "q = (if hd p \<noteq> CHR ''/'' then CHR ''/'' # p else p)"
  have q: "q \<noteq> []" "hd q = CHR ''/''" using False by (auto simp: q_def)
  have c: "path_Clean q \<noteq> []" "hd (path_Clean q) = CHR ''/''"
    using path_Clean_rooted[OF q] by simp_all
  show ?thesis
    using False q c by (auto simp: cleanPath_def Let_def q_def[symmetric])
qed

lemma clean_path_is_rooted:
  assumes "cleanPath p = p"
  shows "p \<noteq> []" and "hd p = CHR ''/''"
  using cleanPath_rooted[of p] assms by simp_all

lemma defaultMux_serves_hello:
  assumes "RequestURI r \<noteq> ''*''" and "cleanPath (URLPath r) = URLPath r"
  shows "ServeHTTP defaultMux w r = hello w r"
proof -
  obtain c cs where p: "URLPath r = c # cs" "c = CHR ''/''"
    using clean_path_is_rooted[OF assms(2)] by (cases "URLPath r") auto
  have nr: "\<not> shouldRedirect [(''/'', hello)] (URLPath r)"
    by (simp add: shouldRedirect_def p)
  have h: "mux_handler [(''/'', hello)] (URLPath r) = hello"
    by (simp add: mux_handler_def mux_match_def HasPrefix_def p)
  show ?thesis
    using assms nr h
    by (simp add: ServeHTTP_def mux_Handler_def defaultMux_def NewServeMux_def HandleFunc_def Let_def)
qed

text \<open>The handlers of the program.\<close>

lemma hello_fresh:
  "status rw = None \<Longrightarrow>
   hello rw r = rw\<lparr>status := Some 200, body := body rw @ ''Hello, world!'' @ [CHR 0x0A]\<rparr>"
  by (simp add: hello_def Write_def WriteHeader_def StatusOK_def)

lemma MapHandler_hit:
  "pathsToUrls (URLPath r) = Some destination \<Longrightarrow>
   MapHandler pathsToUrls fallbackHandler rw r = Redirect rw r destination StatusFound"
  by (simp add: MapHandler_def)

lemma MapHandler_miss:
  "pathsToUrls (URLPath r) = None \<Longrightarrow>
   MapHandler pathsToUrls fallbackHandler rw r = fallbackHandler rw r"
  by (simp add: MapHandler_def)

lemma chain_miss:
  "\<forall>t \<in> set tables. t (URLPath r) = None \<Longrightarrow>
   foldr MapHandler tables D rw r = D rw r"
  by (induction tables) (simp_all add: MapHandler_miss)

text \<open>The loop adds the records from left to right, so the last record is the last update.\<close>

lemma loop_snoc:
  "pathSliceToMapConversion_loop m (ps @ [pU]) =
     (pathSliceToMapConversion_loop m ps)(Path pU \<mapsto> URL pU)"
  by (induction ps arbitrary: m) simp_all

lemma conv_Nil: "pathSliceToMapConversion [] = Map.empty"
  by (simp add: pathSliceToMapConversion_def)

lemma conv_snoc:
  "pathSliceToMapConversion (ps @ [pU]) = (pathSliceToMapConversion ps)(Path pU \<mapsto> URL pU)"
  by (simp add: pathSliceToMapConversion_def loop_snoc)

lemma conv_dom: "dom (pathSliceToMapConversion ps) = Path ` set ps"
proof (induction ps rule: rev_induct)
  case Nil
  show ?case by (simp add: conv_Nil)
next
  case (snoc pU ps)
  have "dom (pathSliceToMapConversion (ps @ [pU])) =
      insert (Path pU) (dom (pathSliceToMapConversion ps))"
    unfolding conv_snoc by simp
  then show ?case using snoc by simp
qed

lemma conv_last:
  "p \<in> Path ` set ps \<Longrightarrow>
   \<exists>i<length ps. Path (ps ! i) = p \<and> (\<forall>j. i < j \<and> j < length ps \<longrightarrow> Path (ps ! j) \<noteq> p) \<and>
      pathSliceToMapConversion ps p = Some (URL (ps ! i))"
proof (induction ps rule: rev_induct)
  case Nil
  then show ?case by simp
next
  case (snoc pU ps)
  show ?case
  proof (cases "Path pU = p")
    case True
    have "length ps < length (ps @ [pU])" by simp
    moreover have "Path ((ps @ [pU]) ! length ps) = p" using True by simp
    moreover have "\<forall>j. length ps < j \<and> j < length (ps @ [pU]) \<longrightarrow> Path ((ps @ [pU]) ! j) \<noteq> p"
      by auto
    moreover have "pathSliceToMapConversion (ps @ [pU]) p = Some (URL ((ps @ [pU]) ! length ps))"
      using True by (simp add: conv_snoc)
    ultimately show ?thesis by blast
  next
    case False
    with snoc.prems have "p \<in> Path ` set ps" by auto
    from snoc.IH[OF this] obtain i where i: "i < length ps" "Path (ps ! i) = p"
      "\<forall>j. i < j \<and> j < length ps \<longrightarrow> Path (ps ! j) \<noteq> p"
      "pathSliceToMapConversion ps p = Some (URL (ps ! i))" by blast
    have a: "i < length (ps @ [pU])" using i(1) by simp
    have b: "Path ((ps @ [pU]) ! i) = p" using i(1,2) by (simp add: nth_append)
    have c: "\<forall>j. i < j \<and> j < length (ps @ [pU]) \<longrightarrow> Path ((ps @ [pU]) ! j) \<noteq> p"
      using i(3) False by (auto simp: nth_append)
    have d: "pathSliceToMapConversion (ps @ [pU]) p = Some (URL ((ps @ [pU]) ! i))"
      using i(1,4) False by (simp add: conv_snoc nth_append)
    from a b c d show ?thesis by blast
  qed
qed

text \<open>With pairwise distinct paths the table holds exactly the records of the slice.\<close>

lemma conv_distinct:
  "distinct (map Path ps) \<Longrightarrow>
   pathSliceToMapConversion ps p = Some u \<longleftrightarrow> \<lparr>Path = p, URL = u\<rparr> \<in> set ps"
proof (induction ps rule: rev_induct)
  case Nil
  then show ?case by (simp add: conv_Nil)
next
  case (snoc pU ps)
  then have d: "distinct (map Path ps)" and n: "Path pU \<notin> Path ` set ps" by auto
  show ?case
  proof (cases "Path pU = p")
    case True
    have "\<lparr>Path = p, URL = u\<rparr> \<notin> set ps"
    proof
      assume "\<lparr>Path = p, URL = u\<rparr> \<in> set ps"
      then have "Path \<lparr>Path = p, URL = u\<rparr> \<in> Path ` set ps" by (rule imageI)
      then show False using n True by simp
    qed
    then show ?thesis using True by (cases pU) (auto simp: conv_snoc)
  next
    case False
    then show ?thesis using snoc.IH[OF d] by (cases pU) (auto simp: conv_snoc)
  qed
qed

lemma conv_perm:
  assumes "distinct (map Path ps)" "mset qs = mset ps"
  shows "pathSliceToMapConversion qs = pathSliceToMapConversion ps"
proof (rule ext)
  fix p
  have s: "set qs = set ps" using assms(2) by (rule mset_eq_setD)
  have "mset (map Path qs) = mset (map Path ps)" using assms(2) by simp
  then have dq: "distinct (map Path qs)" using assms(1) by (metis mset_eq_imp_distinct_iff)
  show "pathSliceToMapConversion qs p = pathSliceToMapConversion ps p"
  proof (cases "pathSliceToMapConversion ps p")
    case None
    then have "p \<notin> Path ` set ps" using conv_dom[of ps] by auto
    then have "p \<notin> dom (pathSliceToMapConversion qs)" using s conv_dom[of qs] by simp
    then show ?thesis using None by auto
  next
    case (Some u)
    then have "\<lparr>Path = p, URL = u\<rparr> \<in> set ps" using conv_distinct[OF assms(1)] by simp
    then have "\<lparr>Path = p, URL = u\<rparr> \<in> set qs" using s by simp
    then have "pathSliceToMapConversion qs p = Some u" using conv_distinct[OF dq] by simp
    then show ?thesis using Some by simp
  qed
qed

text \<open>When the library calls succeed, each constructor wraps the table of the records.\<close>

lemma YAMLHandler_succeeds:
  "yaml_Unmarshal yml = (pathURLs, None) \<Longrightarrow>
   YAMLHandler yaml_Unmarshal yml fallbackHandler =
     (Some (MapHandler (pathSliceToMapConversion pathURLs) fallbackHandler), None)"
  by (simp add: YAMLHandler_def parseYAMLToPathURL_def)

lemma file_constructors_succeed:
  assumes "ioutil_ReadFile fileName = (content, None)"
  shows "json_Unmarshal content = (pathURLs, None) \<Longrightarrow>
         JSONFileHandler ioutil_ReadFile json_Unmarshal fileName fallbackHandler =
           (Some (MapHandler (pathSliceToMapConversion pathURLs) fallbackHandler), None)"
    and "yaml_Unmarshal content = (pathURLs, None) \<Longrightarrow>
         YAMLFileHandler ioutil_ReadFile yaml_Unmarshal fileName fallbackHandler =
           (Some (MapHandler (pathSliceToMapConversion pathURLs) fallbackHandler), None)"
  using assms
  by (simp_all add: JSONFileHandler_def YAMLFileHandler_def YAMLHandler_def openFile_def
      parseJSONToPathURL_def parseYAMLToPathURL_def)

section \<open>The claims\<close>

text \<open>
  Claim C1, as amended. For every table and every request whose path is a key of the
  table, the handler of \<^verbatim>\<open>MapHandler\<close>, run on a writer whose header is not yet written,
  replies with status 302 and with the \<^verbatim>\<open>Location\<close> header that \<^verbatim>\<open>http.Redirect\<close> makes of
  the URL the table holds for the path. That header is the table's URL itself whenever
  the URL does not parse as a reference without scheme and host and has ASCII bytes only.
  The reply is the one of \<^verbatim>\<open>http.Redirect\<close> and is the same for every fallback handler:
  the fallback has no part in it.
\<close>

theorem MapHandler_hit_redirects:
  assumes "pathsToUrls (URLPath r) = Some destination" and "status rw = None"
  shows "status (MapHandler pathsToUrls fallbackHandler rw r) = Some 302 \<and>
         header (MapHandler pathsToUrls fallbackHandler rw r) ''Location'' =
           Some [hexEscapeNonASCII (redirectTarget r destination)] \<and>
         (\<not> parsesAsRelative destination \<and> (\<forall>c \<in> set destination. byte c < 128) \<longrightarrow>
            header (MapHandler pathsToUrls fallbackHandler rw r) ''Location'' = Some [destination]) \<and>
         MapHandler pathsToUrls fallbackHandler rw r = Redirect rw r destination StatusFound \<and>
         (\<forall>other. MapHandler pathsToUrls other rw r = MapHandler pathsToUrls fallbackHandler rw r)"
  using assms
  by (simp add: MapHandler_hit Redirect_status Redirect_Location StatusFound_def
      redirectTarget_not_relative hexEscapeNonASCII_ascii)

theorem MapHandler_hit_redirects_witness:
  "[''/a'' \<mapsto> ''https://example.com/a'']
     (URLPath \<lparr>Method = ''GET'', URLPath = ''/a'', RawQuery = '''', RequestURI = ''/a'',
        ProtoMajor = 1, ProtoMinor = 1, Host = ''localhost:8080'',
        ReqHeader = Map.empty, ReqBody = ''''\<rparr>) = Some ''https://example.com/a'' \<and>
   status newResponse = None \<and>
   status (MapHandler [''/a'' \<mapsto> ''https://example.com/a''] hello newResponse
     \<lparr>Method = ''GET'', URLPath = ''/a'', RawQuery = '''', RequestURI = ''/a'',
        ProtoMajor = 1, ProtoMinor = 1, Host = ''localhost:8080'',
        ReqHeader = Map.empty, ReqBody = ''''\<rparr>) = Some 302 \<and>
   header (MapHandler [''/a'' \<mapsto> ''https://example.com/a''] hello newResponse
     \<lparr>Method = ''GET'', URLPath = ''/a'', RawQuery = '''', RequestURI = ''/a'',
        ProtoMajor = 1, ProtoMinor = 1, Host = ''localhost:8080'',
        ReqHeader = Map.empty, ReqBody = ''''\<rparr>) ''Location'' = Some [''https://example.com/a'']"
proof -
  let ?r = "\<lparr>Method = ''GET'', URLPath = ''/a'', RawQuery = '''', RequestURI = ''/a'',
        ProtoMajor = 1, ProtoMinor = 1, Host = ''localhost:8080'',
        ReqHeader = Map.empty, ReqBody = ''''\<rparr>"
  let ?T = "[''/a'' \<mapsto> ''https://example.com/a'']"
  have h1: "?T (URLPath ?r) = Some ''https://example.com/a''" by simp
  have h2: "status newResponse = None" by (simp add: newResponse_def)
  have h3: "\<not> parsesAsRelative ''https://example.com/a''" by code_simp
  have h4: "\<forall>c \<in> set ''https://example.com/a''. byte c < 128" by code_simp
  from MapHandler_hit_redirects [of ?T ?r "''https://example.com/a''" newResponse hello, OF h1 h2]
  have "status (MapHandler ?T hello newResponse ?r) = Some 302"
    and "\<not> parsesAsRelative ''https://example.com/a'' \<and> (\<forall>c \<in> set ''https://example.com/a''. byte c < 128) \<longrightarrow>
         header (MapHandler ?T hello newResponse ?r) ''Location'' = Some [''https://example.com/a'']"
    by blast+
  with h1 h2 h3 h4 show ?thesis by blast
qed

text \<open>
  Claim C1 as it was stated says that the \<^verbatim>\<open>Location\<close> header equals the table's URL for
  every table. With the table that maps \<^verbatim>\<open>/a/b\<close> to the relative target \<^verbatim>\<open>foo\<close>, the reply
  to a POST request for \<^verbatim>\<open>/a/b\<close> has \<^verbatim>\<open>/a/foo\<close> there.
\<close>

theorem MapHandler_relative_target_counterexample:
  "[''/a/b'' \<mapsto> ''foo'']
     (URLPath \<lparr>Method = ''POST'', URLPath = ''/a/b'', RawQuery = '''', RequestURI = ''/a/b'',
        ProtoMajor = 1, ProtoMinor = 1, Host = ''localhost:8080'',
        ReqHeader = Map.empty, ReqBody = ''''\<rparr>) = Some ''foo'' \<and>
   status (MapHandler [''/a/b'' \<mapsto> ''foo''] hello newResponse
     \<lparr>Method = ''POST'', URLPath = ''/a/b'', RawQuery = '''', RequestURI = ''/a/b'',
        ProtoMajor = 1, ProtoMinor = 1, Host = ''localhost:8080'',
        ReqHeader = Map.empty, ReqBody = ''''\<rparr>) = Some 302 \<and>
   header (MapHandler [''/a/b'' \<mapsto> ''foo''] hello newResponse
     \<lparr>Method = ''POST'', URLPath = ''/a/b'', RawQuery = '''', RequestURI = ''/a/b'',
        ProtoMajor = 1, ProtoMinor = 1, Host = ''localhost:8080'',
        ReqHeader = Map.empty, ReqBody = ''''\<rparr>) ''Location'' = Some [''/a/foo''] \<and>
   header (MapHandler [''/a/b'' \<mapsto> ''foo''] hello newResponse
     \<lparr>Method = ''POST'', URLPath = ''/a/b'', RawQuery = '''', RequestURI = ''/a/b'',
        ProtoMajor = 1, ProtoMinor = 1, Host = ''localhost:8080'',
        ReqHeader = Map.empty, ReqBody = ''''\<rparr>) ''Location'' \<noteq> Some [''foo'']"
proof -
  let ?r = "\<lparr>Method = ''POST'', URLPath = ''/a/b'', RawQuery = '''', RequestURI = ''/a/b'',
        ProtoMajor = 1, ProtoMinor = 1, Host = ''localhost:8080'',
        ReqHeader = Map.empty, ReqBody = ''''\<rparr>"
  have t: "hexEscapeNonASCII (redirectTarget ?r ''foo'') = ''/a/foo''" by code_simp
  have h1: "[''/a/b'' \<mapsto> ''foo''] (URLPath ?r) = Some ''foo''" by simp
  have h2: "status newResponse = None" by (simp add: newResponse_def)
  have m: "MapHandler [''/a/b'' \<mapsto> ''foo''] hello newResponse ?r =
      Redirect newResponse ?r ''foo'' StatusFound"
    using h1 by (rule MapHandler_hit)
  have st: "status (Redirect newResponse ?r ''foo'' StatusFound) = Some 302"
    using Redirect_status [OF h2] by (simp add: StatusFound_def)
  have loc: "header (Redirect newResponse ?r ''foo'' StatusFound) ''Location'' = Some [''/a/foo'']"
    by (simp only: Redirect_Location t)
  show ?thesis
    unfolding m using h1 st loc by simp
qed

text \<open>
  Claim C2, as amended. For every request that does not ask for \<^verbatim>\<open>*\<close>, whose path is
  clean (\<^verbatim>\<open>cleanPath\<close> leaves it as it is) and is in none of the tables of a chain of map
  handlers that ends in the default mux, the reply is the one of \<^verbatim>\<open>hello\<close>: on the
  server's fresh writer, status 200 and the bytes \<^verbatim>\<open>Hello, world!\<close> with a newline written
  as body, whatever the method of the request is.
\<close>

theorem unmatched_request_gets_greeting:
  assumes "\<forall>t \<in> set tables. t (URLPath r) = None"
    and "RequestURI r \<noteq> ''*''"
    and "cleanPath (URLPath r) = URLPath r"
  shows "foldr MapHandler tables (ServeHTTP defaultMux) newResponse r =
           \<lparr>header = Map.empty, status = Some 200, body = ''Hello, world!'' @ [CHR 0x0A]\<rparr> \<and>
         (\<forall>rw. foldr MapHandler tables (ServeHTTP defaultMux) rw r = hello rw r)"
  using assms by (simp add: chain_miss defaultMux_serves_hello hello_fresh newResponse_def)

theorem unmatched_request_gets_greeting_witness:
  "[''/a'' \<mapsto> ''https://example.com/a'']
     (URLPath \<lparr>Method = ''POST'', URLPath = ''/nonexistent'', RawQuery = ''q=1'',
        RequestURI = ''/nonexistent?q=1'', ProtoMajor = 1, ProtoMinor = 1, Host = ''localhost:8080'',
        ReqHeader = Map.empty, ReqBody = ''x''\<rparr>) = None \<and>
   main_pathsToUrls
     (URLPath \<lparr>Method = ''POST'', URLPath = ''/nonexistent'', RawQuery = ''q=1'',
        RequestURI = ''/nonexistent?q=1'', ProtoMajor = 1, ProtoMinor = 1, Host = ''localhost:8080'',
        ReqHeader = Map.empty, ReqBody = ''x''\<rparr>) = None \<and>
   cleanPath ''/nonexistent'' = ''/nonexistent'' \<and>
   foldr MapHandler [[''/a'' \<mapsto> ''https://example.com/a''], main_pathsToUrls] (ServeHTTP defaultMux) newResponse
     \<lparr>Method = ''POST'', URLPath = ''/nonexistent'', RawQuery = ''q=1'',
        RequestURI = ''/nonexistent?q=1'', ProtoMajor = 1, ProtoMinor = 1, Host = ''localhost:8080'',
        ReqHeader = Map.empty, ReqBody = ''x''\<rparr> =
     \<lparr>header = Map.empty, status = Some 200, body = ''Hello, world!'' @ [CHR 0x0A]\<rparr>"
proof -
  let ?r = "\<lparr>Method = ''POST'', URLPath = ''/nonexistent'', RawQuery = ''q=1'',
        RequestURI = ''/nonexistent?q=1'', ProtoMajor = 1, ProtoMinor = 1, Host = ''localhost:8080'',
        ReqHeader = Map.empty, ReqBody = ''x''\<rparr>"
  let ?tables = "[[''/a'' \<mapsto> ''https://example.com/a''], main_pathsToUrls]"
  have miss: "\<forall>t \<in> set ?tables. t (URLPath ?r) = None"
    by (simp add: main_pathsToUrls_def)
  have uri: "RequestURI ?r \<noteq> ''*''" by simp
  have c: "cleanPath ''/nonexistent'' = ''/nonexistent''" by code_simp
  then have clean: "cleanPath (URLPath ?r) = URLPath ?r" by simp
  have "foldr MapHandler ?tables (ServeHTTP defaultMux) newResponse ?r =
      \<lparr>header = Map.empty, status = Some 200, body = ''Hello, world!'' @ [CHR 0x0A]\<rparr>"
    using unmatched_request_gets_greeting [OF miss uri clean] by (rule conjunct1)
  then show ?thesis using miss c by simp
qed

text \<open>
  Claim C2 as it was stated holds the greeting out for every path that is in no table.
  The path \<^verbatim>\<open>//nonexistent\<close> is not clean: the mux answers a GET request for it with status
  301 and \<^verbatim>\<open>/nonexistent\<close> as \<^verbatim>\<open>Location\<close>, and \<^verbatim>\<open>hello\<close> is not run.
\<close>

theorem unclean_path_counterexample:
  "main_pathsToUrls
     (URLPath \<lparr>Method = ''GET'', URLPath = ''//nonexistent'', RawQuery = '''',
        RequestURI = ''//nonexistent'', ProtoMajor = 1, ProtoMinor = 1, Host = ''localhost:8080'',
        ReqHeader = Map.empty, ReqBody = ''''\<rparr>) = None \<and>
   status (foldr MapHandler [main_pathsToUrls] (ServeHTTP defaultMux) newResponse
     \<lparr>Method = ''GET'', URLPath = ''//nonexistent'', RawQuery = '''',
        RequestURI = ''//nonexistent'', ProtoMajor = 1, ProtoMinor = 1, Host = ''localhost:8080'',
        ReqHeader = Map.empty, ReqBody = ''''\<rparr>) = Some 301 \<and>
   header (foldr MapHandler [main_pathsToUrls] (ServeHTTP defaultMux) newResponse
     \<lparr>Method = ''GET'', URLPath = ''//nonexistent'', RawQuery = '''',
        RequestURI = ''//nonexistent'', ProtoMajor = 1, ProtoMinor = 1, Host = ''localhost:8080'',
        ReqHeader = Map.empty, ReqBody = ''''\<rparr>) ''Location'' = Some [''/nonexistent''] \<and>
   status (foldr MapHandler [main_pathsToUrls] (ServeHTTP defaultMux) newResponse
     \<lparr>Method = ''GET'', URLPath = ''//nonexistent'', RawQuery = '''',
        RequestURI = ''//nonexistent'', ProtoMajor = 1, ProtoMinor = 1, Host = ''localhost:8080'',
        ReqHeader = Map.empty, ReqBody = ''''\<rparr>) \<noteq> Some 200"
proof -
  let ?r = "\<lparr>Method = ''GET'', URLPath = ''//nonexistent'', RawQuery = '''',
        RequestURI = ''//nonexistent'', ProtoMajor = 1, ProtoMinor = 1, Host = ''localhost:8080'',
        ReqHeader = Map.empty, ReqBody = ''''\<rparr>"
  have miss: "main_pathsToUrls (URLPath ?r) = None" by (simp add: main_pathsToUrls_def)
  have c: "cleanPath ''//nonexistent'' = ''/nonexistent''" by code_simp
  have u: "URL_String ''/nonexistent'' [] = ''/nonexistent''" by code_simp
  have t: "hexEscapeNonASCII (redirectTarget ?r ''/nonexistent'') = ''/nonexistent''" by code_simp
  have nr: "\<not> shouldRedirect [(''/'', hello)] ''/nonexistent''"
    by (simp add: shouldRedirect_def)
  have s: "ServeHTTP defaultMux newResponse ?r =
      Redirect newResponse ?r ''/nonexistent'' StatusMovedPermanently"
    using nr
    by (simp add: ServeHTTP_def mux_Handler_def defaultMux_def NewServeMux_def HandleFunc_def
        Let_def c u RedirectHandler_def)
  have f: "foldr MapHandler [main_pathsToUrls] (ServeHTTP defaultMux) newResponse ?r =
      Redirect newResponse ?r ''/nonexistent'' StatusMovedPermanently"
    using miss s by (simp add: MapHandler_miss)
  have h2: "status newResponse = None" by (simp add: newResponse_def)
  have st: "status (Redirect newResponse ?r ''/nonexistent'' StatusMovedPermanently) = Some 301"
    using Redirect_status [OF h2] by (simp add: StatusMovedPermanently_def)
  have loc: "header (Redirect newResponse ?r ''/nonexistent'' StatusMovedPermanently) ''Location'' =
      Some [''/nonexistent'']"
    by (simp only: Redirect_Location t)
  show ?thesis
    unfolding f using miss st loc by simp
qed

text \<open>
  Claim C3. For every sequence of records, the table builder maps each path that occurs
  in the sequence to the URL of the path's last occurrence: there is a position holding
  the path, with no later position holding it, whose URL is the table's entry. In
  particular the records \<^verbatim>\<open>{/x, A}\<close>, \<^verbatim>\<open>{/x, B}\<close> give a table with \<^verbatim>\<open>B\<close> at \<^verbatim>\<open>/x\<close>.
\<close>

theorem pathSliceToMapConversion_last_wins:
  "(p \<in> Path ` set pUrls \<longrightarrow>
      (\<exists>i<length pUrls. Path (pUrls ! i) = p \<and>
         (\<forall>j. i < j \<and> j < length pUrls \<longrightarrow> Path (pUrls ! j) \<noteq> p) \<and>
         pathSliceToMapConversion pUrls p = Some (URL (pUrls ! i)))) \<and>
   pathSliceToMapConversion [\<lparr>Path = ''/x'', URL = ''A''\<rparr>, \<lparr>Path = ''/x'', URL = ''B''\<rparr>] ''/x'' = Some ''B''"
proof
  show "p \<in> Path ` set pUrls \<longrightarrow>
      (\<exists>i<length pUrls. Path (pUrls ! i) = p \<and>
         (\<forall>j. i < j \<and> j < length pUrls \<longrightarrow> Path (pUrls ! j) \<noteq> p) \<and>
         pathSliceToMapConversion pUrls p = Some (URL (pUrls ! i)))"
    using conv_last by blast
  show "pathSliceToMapConversion [\<lparr>Path = ''/x'', URL = ''A''\<rparr>, \<lparr>Path = ''/x'', URL = ''B''\<rparr>] ''/x'' = Some ''B''"
    by (simp add: pathSliceToMapConversion_def)
qed

theorem pathSliceToMapConversion_last_wins_witness:
  "''/a'' \<in> Path ` set [\<lparr>Path = ''/a'', URL = ''1''\<rparr>, \<lparr>Path = ''/b'', URL = ''2''\<rparr>, \<lparr>Path = ''/a'', URL = ''3''\<rparr>] \<and>
   pathSliceToMapConversion
     [\<lparr>Path = ''/a'', URL = ''1''\<rparr>, \<lparr>Path = ''/b'', URL = ''2''\<rparr>, \<lparr>Path = ''/a'', URL = ''3''\<rparr>] ''/a'' = Some ''3''"
  using pathSliceToMapConversion_last_wins
    [of "''/a''" "[\<lparr>Path = ''/a'', URL = ''1''\<rparr>, \<lparr>Path = ''/b'', URL = ''2''\<rparr>, \<lparr>Path = ''/a'', URL = ''3''\<rparr>]"]
  by (simp add: pathSliceToMapConversion_def)

text \<open>
  Claim C4. For every byte input the YAML handler constructor returns either the error
  of the parser with no handler, or the finished map handler over the table of all
  parsed records with no error; never both and never neither. When the parser rejects
  its input (malformed YAML such as a colon, a newline and \<^verbatim>\<open>  - bad\<close>), the result is
  the first, whatever part of the records the parser had filled in.
\<close>

theorem YAMLHandler_error_or_handler:
  "(\<exists>err. snd (yaml_Unmarshal yml) = Some err \<and>
      YAMLHandler yaml_Unmarshal yml fallbackHandler = (None, Some err))
   \<or> (snd (yaml_Unmarshal yml) = None \<and>
      YAMLHandler yaml_Unmarshal yml fallbackHandler =
        (Some (MapHandler (pathSliceToMapConversion (fst (yaml_Unmarshal yml))) fallbackHandler), None))"
  by (cases "yaml_Unmarshal yml"; cases "snd (yaml_Unmarshal yml)")
     (simp_all add: YAMLHandler_def parseYAMLToPathURL_def)

theorem YAMLHandler_error_or_handler_witness:
  "YAMLHandler
     (\<lambda>dat. if dat = '':'' @ [CHR 0x0A] @ ''  - bad''
        then ([\<lparr>Path = ''bad'', URL = ''''\<rparr>], Some (Error ''yaml: unmarshal errors''))
        else ([], None))
     ('':'' @ [CHR 0x0A] @ ''  - bad'') hello = (None, Some (Error ''yaml: unmarshal errors''))"
  using YAMLHandler_error_or_handler
    [of "\<lambda>dat. if dat = '':'' @ [CHR 0x0A] @ ''  - bad''
        then ([\<lparr>Path = ''bad'', URL = ''''\<rparr>], Some (Error ''yaml: unmarshal errors''))
        else ([], None)"
        "'':'' @ [CHR 0x0A] @ ''  - bad''" hello]
  by simp

text \<open>
  Claim C5. For every file name whose read fails, \<^verbatim>\<open>JSONFileHandler\<close> and
  \<^verbatim>\<open>YAMLFileHandler\<close> return the error of the read and no handler. The result is the same
  for every parser, so no parse has a part in it.
\<close>

theorem file_handlers_fail_before_parsing:
  assumes "snd (ioutil_ReadFile fileName) = Some err"
  shows "JSONFileHandler ioutil_ReadFile json_Unmarshal fileName fallbackHandler = (None, Some err) \<and>
         YAMLFileHandler ioutil_ReadFile yaml_Unmarshal fileName fallbackHandler' = (None, Some err)"
  using assms
  by (cases "ioutil_ReadFile fileName")
     (simp add: JSONFileHandler_def YAMLFileHandler_def openFile_def)

theorem file_handlers_fail_before_parsing_witness:
  "snd ((\<lambda>name. ([], Some (Error ''open: no such file or directory''))) ''paths.json'') =
     Some (Error ''open: no such file or directory'') \<and>
   JSONFileHandler (\<lambda>name. ([], Some (Error ''open: no such file or directory'')))
     (\<lambda>dat. ([\<lparr>Path = ''/a'', URL = ''https://example.com/a''\<rparr>], None)) ''paths.json'' hello =
     (None, Some (Error ''open: no such file or directory'')) \<and>
   YAMLFileHandler (\<lambda>name. ([], Some (Error ''open: no such file or directory'')))
     (\<lambda>dat. ([\<lparr>Path = ''/a'', URL = ''https://example.com/a''\<rparr>], None)) ''paths.json'' hello =
     (None, Some (Error ''open: no such file or directory''))"
  using file_handlers_fail_before_parsing
    [of "\<lambda>name. ([], Some (Error ''open: no such file or directory''))" "''paths.json''"
        "Error ''open: no such file or directory''"
        "\<lambda>dat. ([\<lparr>Path = ''/a'', URL = ''https://example.com/a''\<rparr>], None)" hello
        "\<lambda>dat. ([\<lparr>Path = ''/a'', URL = ''https://example.com/a''\<rparr>], None)" hello]
  by simp

text \<open>
  Claim C6. When \<^verbatim>\<open>flag.Parse\<close> accepts the command line and the embedded YAML, the JSON
  file and the YAML file are read and parsed without error, \<^verbatim>\<open>main\<close> serves on \<^verbatim>\<open>:8080\<close>
  with the YAML-file handler as root, built around the JSON-file handler, built around
  the embedded-YAML handler, built around the in-memory map handler, built around the
  default mux. So a request is looked up in the YAML-file table first, then the JSON-file
  table, then the embedded table, then the in-memory map, and goes to the mux when none
  holds its path.
\<close>

theorem main_builds_chain:
  assumes "flag_parse main_flags Map.empty args = Inr actual"
    and "yaml_Unmarshal main_yaml = (embedded, None)"
    and "ioutil_ReadFile (flag_String actual ''json'' ''paths.json'') = (jsonData, None)"
    and "json_Unmarshal jsonData = (fromJSON, None)"
    and "ioutil_ReadFile (flag_String actual ''yaml'' ''paths.yaml'') = (yamlBytes, None)"
    and "yaml_Unmarshal yamlBytes = (fromYAML, None)"
  shows "\<exists>root.
           main ioutil_ReadFile yaml_Unmarshal json_Unmarshal args =
             ListenAndServe (''Starting the server on :8080'' @ [CHR 0x0A]) '':8080'' root \<and>
           root =
             MapHandler (pathSliceToMapConversion fromYAML)
               (MapHandler (pathSliceToMapConversion fromJSON)
                 (MapHandler (pathSliceToMapConversion embedded)
                   (MapHandler main_pathsToUrls (ServeHTTP defaultMux)))) \<and>
           (\<forall>rw r. root rw r =
             (case pathSliceToMapConversion fromYAML (URLPath r) of
                Some u \<Rightarrow> Redirect rw r u StatusFound
              | None \<Rightarrow>
             (case pathSliceToMapConversion fromJSON (URLPath r) of
                Some u \<Rightarrow> Redirect rw r u StatusFound
              | None \<Rightarrow>
             (case pathSliceToMapConversion embedded (URLPath r) of
                Some u \<Rightarrow> Redirect rw r u StatusFound
              | None \<Rightarrow>
             (case main_pathsToUrls (URLPath r) of
                Some u \<Rightarrow> Redirect rw r u StatusFound
              | None \<Rightarrow> ServeHTTP defaultMux rw r)))))"
proof -
  let ?mapHandler = "MapHandler main_pathsToUrls (ServeHTTP defaultMux)"
  let ?yamlHandler = "MapHandler (pathSliceToMapConversion embedded) ?mapHandler"
  let ?jsonFileHandler = "MapHandler (pathSliceToMapConversion fromJSON) ?yamlHandler"
  let ?yamlFileHandler = "MapHandler (pathSliceToMapConversion fromYAML) ?jsonFileHandler"
  have "main ioutil_ReadFile yaml_Unmarshal json_Unmarshal args =
      ListenAndServe (''Starting the server on :8080'' @ [CHR 0x0A]) '':8080'' ?yamlFileHandler"
    using assms
    by (simp add: main_def YAMLHandler_succeeds file_constructors_succeed)
  moreover have "\<forall>rw r. ?yamlFileHandler rw r =
             (case pathSliceToMapConversion fromYAML (URLPath r) of
                Some u \<Rightarrow> Redirect rw r u StatusFound
              | None \<Rightarrow>
             (case pathSliceToMapConversion fromJSON (URLPath r) of
                Some u \<Rightarrow> Redirect rw r u StatusFound
              | None \<Rightarrow>
             (case pathSliceToMapConversion embedded (URLPath r) of
                Some u \<Rightarrow> Redirect rw r u StatusFound
              | None \<Rightarrow>
             (case main_pathsToUrls (URLPath r) of
                Some u \<Rightarrow> Redirect rw r u StatusFound
              | None \<Rightarrow> ServeHTTP defaultMux rw r))))"
    by (simp add: MapHandler_def split: option.splits)
  ultimately show ?thesis by blast
qed

theorem main_builds_chain_witness:
  "(case main (\<lambda>name. (name, None))
      (\<lambda>dat. if dat = main_yaml
         then ([\<lparr>Path = ''/urlshort'', URL = ''https://github.com/gophercises/urlshort''\<rparr>,
                \<lparr>Path = ''/urlshort-final'', URL = ''https://github.com/gophercises/urlshort/tree/solution''\<rparr>], None)
         else ([\<lparr>Path = ''/y'', URL = ''https://example.com/y''\<rparr>], None))
      (\<lambda>dat. ([\<lparr>Path = ''/urlshort-final'', URL = ''https://example.com/j''\<rparr>], None))
      [''-json'', ''redirects.json''] of
     ListenAndServe out addr root \<Rightarrow>
       addr = '':8080'' \<and>
       status (root newResponse \<lparr>Method = ''GET'', URLPath = ''/urlshort'', RawQuery = '''',
          RequestURI = ''/urlshort'', ProtoMajor = 1, ProtoMinor = 1, Host = ''localhost:8080'',
          ReqHeader = Map.empty, ReqBody = ''''\<rparr>) = Some 302 \<and>
       header (root newResponse \<lparr>Method = ''GET'', URLPath = ''/urlshort'', RawQuery = '''',
          RequestURI = ''/urlshort'', ProtoMajor = 1, ProtoMinor = 1, Host = ''localhost:8080'',
          ReqHeader = Map.empty, ReqBody = ''''\<rparr>) ''Location'' =
         Some [''https://github.com/gophercises/urlshort''] \<and>
       status (root newResponse \<lparr>Method = ''GET'', URLPath = ''/urlshort-final'', RawQuery = '''',
          RequestURI = ''/urlshort-final'', ProtoMajor = 1, ProtoMinor = 1, Host = ''localhost:8080'',
          ReqHeader = Map.empty, ReqBody = ''''\<rparr>) = Some 302 \<and>
       header (root newResponse \<lparr>Method = ''GET'', URLPath = ''/urlshort-final'', RawQuery = '''',
          RequestURI = ''/urlshort-final'', ProtoMajor = 1, ProtoMinor = 1, Host = ''localhost:8080'',
          ReqHeader = Map.empty, ReqBody = ''''\<rparr>) ''Location'' =
         Some [''https://example.com/j'']
   | _ \<Rightarrow> False)"
proof -
  let ?RF = "\<lambda>name::string. (name, None::error option)"
  let ?emb = "[\<lparr>Path = ''/urlshort'', URL = ''https://github.com/gophercises/urlshort''\<rparr>,
                \<lparr>Path = ''/urlshort-final'', URL = ''https://github.com/gophercises/urlshort/tree/solution''\<rparr>]"
  let ?YU = "\<lambda>dat. if dat = main_yaml
         then (?emb, None::error option)
         else ([\<lparr>Path = ''/y'', URL = ''https://example.com/y''\<rparr>], None)"
  let ?JU = "\<lambda>dat::bytes. ([\<lparr>Path = ''/urlshort-final'', URL = ''https://example.com/j''\<rparr>], None::error option)"
  let ?actual = "[''json'' \<mapsto> ''redirects.json'']"
  let ?r1 = "\<lparr>Method = ''GET'', URLPath = ''/urlshort'', RawQuery = '''',
          RequestURI = ''/urlshort'', ProtoMajor = 1, ProtoMinor = 1, Host = ''localhost:8080'',
          ReqHeader = Map.empty, ReqBody = ''''\<rparr>"
  let ?r2 = "\<lparr>Method = ''GET'', URLPath = ''/urlshort-final'', RawQuery = '''',
          RequestURI = ''/urlshort-final'', ProtoMajor = 1, ProtoMinor = 1, Host = ''localhost:8080'',
          ReqHeader = Map.empty, ReqBody = ''''\<rparr>"
  have h0: "flag_parse main_flags Map.empty [''-json'', ''redirects.json''] = Inr ?actual"
    by (simp add: main_flags_def before_def from_on_def Let_def)
  have h1: "?YU main_yaml = (?emb, None)" by simp
  have h2: "?RF (flag_String ?actual ''json'' ''paths.json'') = (''redirects.json'', None)"
    by (simp add: flag_String_def)
  have h3: "?JU ''redirects.json'' = ([\<lparr>Path = ''/urlshort-final'', URL = ''https://example.com/j''\<rparr>], None)"
    by simp
  have h4: "?RF (flag_String ?actual ''yaml'' ''paths.yaml'') = (''paths.yaml'', None)"
    by (simp add: flag_String_def)
  have h5: "?YU ''paths.yaml'' = ([\<lparr>Path = ''/y'', URL = ''https://example.com/y''\<rparr>], None)"
    by (simp add: main_yaml_def)
  from main_builds_chain [of "[''-json'', ''redirects.json'']" ?actual ?YU ?emb ?RF "''redirects.json''" ?JU _ "''paths.yaml''" _,
      OF h0 h1 h2 h3 h4 h5]
  obtain root where
    m: "main ?RF ?YU ?JU [''-json'', ''redirects.json''] =
          ListenAndServe (''Starting the server on :8080'' @ [CHR 0x0A]) '':8080'' root"
    and r: "\<forall>rw r. root rw r =
             (case pathSliceToMapConversion [\<lparr>Path = ''/y'', URL = ''https://example.com/y''\<rparr>] (URLPath r) of
                Some u \<Rightarrow> Redirect rw r u StatusFound
              | None \<Rightarrow>
             (case pathSliceToMapConversion [\<lparr>Path = ''/urlshort-final'', URL = ''https://example.com/j''\<rparr>] (URLPath r) of
                Some u \<Rightarrow> Redirect rw r u StatusFound
              | None \<Rightarrow>
             (case pathSliceToMapConversion ?emb (URLPath r) of
                Some u \<Rightarrow> Redirect rw r u StatusFound
              | None \<Rightarrow>
             (case main_pathsToUrls (URLPath r) of
                Some u \<Rightarrow> Redirect rw r u StatusFound
              | None \<Rightarrow> ServeHTTP defaultMux rw r))))"
    by blast
  have fresh: "status newResponse = None" by (simp add: newResponse_def)
  have r1: "root newResponse ?r1 =
      Redirect newResponse ?r1 ''https://github.com/gophercises/urlshort'' StatusFound"
    by (simp add: r pathSliceToMapConversion_def)
  have r2: "root newResponse ?r2 = Redirect newResponse ?r2 ''https://example.com/j'' StatusFound"
    by (simp add: r pathSliceToMapConversion_def)
  have t1: "hexEscapeNonASCII (redirectTarget ?r1 ''https://github.com/gophercises/urlshort'') =
      ''https://github.com/gophercises/urlshort''"
    by code_simp
  have t2: "hexEscapeNonASCII (redirectTarget ?r2 ''https://example.com/j'') = ''https://example.com/j''"
    by code_simp
  have s1: "status (root newResponse ?r1) = Some 302"
    unfolding r1 using Redirect_status [OF fresh] by (simp add: StatusFound_def)
  have s2: "status (root newResponse ?r2) = Some 302"
    unfolding r2 using Redirect_status [OF fresh] by (simp add: StatusFound_def)
  have l1: "header (root newResponse ?r1) ''Location'' = Some [''https://github.com/gophercises/urlshort'']"
    by (simp only: r1 Redirect_Location t1)
  have l2: "header (root newResponse ?r2) ''Location'' = Some [''https://example.com/j'']"
    by (simp only: r2 Redirect_Location t2)
  show ?thesis
    unfolding m using s1 s2 l1 l2 by simp
qed

text \<open>
  Claim C7. Delegation to the fallback is transitive: with an outer map handler built
  around an inner map handler built around a default, a request whose path is a key of
  the inner table and not of the outer one gets from the outer handler exactly the reply
  of the inner handler alone, the redirect with status 302 that \<^verbatim>\<open>http.Redirect\<close> makes
  of the inner table's URL.
\<close>

theorem fallback_delegation_transitive:
  assumes "inner (URLPath r) = Some u" and "outer (URLPath r) = None" and "status rw = None"
  shows "MapHandler outer (MapHandler inner D) rw r = MapHandler inner D rw r \<and>
         MapHandler outer (MapHandler inner D) rw r = Redirect rw r u StatusFound \<and>
         status (MapHandler outer (MapHandler inner D) rw r) = Some 302"
  using assms by (simp add: MapHandler_hit MapHandler_miss Redirect_status StatusFound_def)

theorem fallback_delegation_transitive_witness:
  "[''/a'' \<mapsto> ''https://example.com/a'']
     (URLPath \<lparr>Method = ''GET'', URLPath = ''/a'', RawQuery = '''', RequestURI = ''/a'',
        ProtoMajor = 1, ProtoMinor = 1, Host = ''localhost:8080'',
        ReqHeader = Map.empty, ReqBody = ''''\<rparr>) = Some ''https://example.com/a'' \<and>
   [''/b'' \<mapsto> ''https://example.com/b'']
     (URLPath \<lparr>Method = ''GET'', URLPath = ''/a'', RawQuery = '''', RequestURI = ''/a'',
        ProtoMajor = 1, ProtoMinor = 1, Host = ''localhost:8080'',
        ReqHeader = Map.empty, ReqBody = ''''\<rparr>) = None \<and>
   status newResponse = None \<and>
   MapHandler [''/b'' \<mapsto> ''https://example.com/b'']
     (MapHandler [''/a'' \<mapsto> ''https://example.com/a''] (ServeHTTP defaultMux)) newResponse
     \<lparr>Method = ''GET'', URLPath = ''/a'', RawQuery = '''', RequestURI = ''/a'',
        ProtoMajor = 1, ProtoMinor = 1, Host = ''localhost:8080'',
        ReqHeader = Map.empty, ReqBody = ''''\<rparr> =
   MapHandler [''/a'' \<mapsto> ''https://example.com/a''] (ServeHTTP defaultMux) newResponse
     \<lparr>Method = ''GET'', URLPath = ''/a'', RawQuery = '''', RequestURI = ''/a'',
        ProtoMajor = 1, ProtoMinor = 1, Host = ''localhost:8080'',
        ReqHeader = Map.empty, ReqBody = ''''\<rparr> \<and>
   status (MapHandler [''/b'' \<mapsto> ''https://example.com/b'']
     (MapHandler [''/a'' \<mapsto> ''https://example.com/a''] (ServeHTTP defaultMux)) newResponse
     \<lparr>Method = ''GET'', URLPath = ''/a'', RawQuery = '''', RequestURI = ''/a'',
        ProtoMajor = 1, ProtoMinor = 1, Host = ''localhost:8080'',
        ReqHeader = Map.empty, ReqBody = ''''\<rparr>) = Some 302"
proof -
  let ?r = "\<lparr>Method = ''GET'', URLPath = ''/a'', RawQuery = '''', RequestURI = ''/a'',
        ProtoMajor = 1, ProtoMinor = 1, Host = ''localhost:8080'',
        ReqHeader = Map.empty, ReqBody = ''''\<rparr>"
  let ?inner = "[''/a'' \<mapsto> ''https://example.com/a'']"
  let ?outer = "[''/b'' \<mapsto> ''https://example.com/b'']"
  have h1: "?inner (URLPath ?r) = Some ''https://example.com/a''" by simp
  have h2: "?outer (URLPath ?r) = None" by simp
  have h3: "status newResponse = None" by (simp add: newResponse_def)
  from fallback_delegation_transitive
      [of ?inner ?r "''https://example.com/a''" ?outer newResponse "ServeHTTP defaultMux", OF h1 h2 h3]
  have "MapHandler ?outer (MapHandler ?inner (ServeHTTP defaultMux)) newResponse ?r =
          MapHandler ?inner (ServeHTTP defaultMux) newResponse ?r"
    and "status (MapHandler ?outer (MapHandler ?inner (ServeHTTP defaultMux)) newResponse ?r) = Some 302"
    by blast+
  with h1 h2 h3 show ?thesis by (intro conjI)
qed

text \<open>
  Claim C8. For every sequence of records with pairwise distinct paths and every
  permutation of it (a sequence with the same records, each as often), the table builder
  gives the same table.
\<close>

theorem pathSliceToMapConversion_order_independent:
  assumes "distinct (map Path pUrls)" and "mset qUrls = mset pUrls"
  shows "pathSliceToMapConversion qUrls = pathSliceToMapConversion pUrls"
  using assms by (rule conv_perm)

theorem pathSliceToMapConversion_order_independent_witness:
  "distinct (map Path [\<lparr>Path = ''/a'', URL = ''1''\<rparr>, \<lparr>Path = ''/b'', URL = ''2''\<rparr>]) \<and>
   mset [\<lparr>Path = ''/b'', URL = ''2''\<rparr>, \<lparr>Path = ''/a'', URL = ''1''\<rparr>] =
     mset [\<lparr>Path = ''/a'', URL = ''1''\<rparr>, \<lparr>Path = ''/b'', URL = ''2''\<rparr>] \<and>
   pathSliceToMapConversion [\<lparr>Path = ''/b'', URL = ''2''\<rparr>, \<lparr>Path = ''/a'', URL = ''1''\<rparr>] =
     pathSliceToMapConversion [\<lparr>Path = ''/a'', URL = ''1''\<rparr>, \<lparr>Path = ''/b'', URL = ''2''\<rparr>]"
  using pathSliceToMapConversion_order_independent
    [of "[\<lparr>Path = ''/a'', URL = ''1''\<rparr>, \<lparr>Path = ''/b'', URL = ''2''\<rparr>]"
        "[\<lparr>Path = ''/b'', URL = ''2''\<rparr>, \<lparr>Path = ''/a'', URL = ''1''\<rparr>]"]
  by simp

text \<open>
  Claim C9. When the content of the JSON file and the YAML bytes parse without error to
  the same sequence of records, \<^verbatim>\<open>JSONFileHandler\<close> and \<^verbatim>\<open>YAMLHandler\<close>, given the same
  fallback, both return a handler and no error, and the two handlers reply alike to
  every request on every writer.
\<close>

theorem JSON_path_equals_YAML_path:
  assumes "ioutil_ReadFile jsonFileName = (jsonData, None)"
    and "json_Unmarshal jsonData = (pathURLs, None)"
    and "yaml_Unmarshal yml = (pathURLs, None)"
  shows "\<exists>hj hy.
           JSONFileHandler ioutil_ReadFile json_Unmarshal jsonFileName fallbackHandler = (Some hj, None) \<and>
           YAMLHandler yaml_Unmarshal yml fallbackHandler = (Some hy, None) \<and>
           (\<forall>rw r. hj rw r = hy rw r)"
  using assms
  by (simp add: JSONFileHandler_def YAMLHandler_def openFile_def parseJSONToPathURL_def
      parseYAMLToPathURL_def)

theorem JSON_path_equals_YAML_path_witness:
  "(\<lambda>name. (''json'', None)) ''paths.json'' = (''json'', None) \<and>
   (\<lambda>dat. ([\<lparr>Path = ''/a'', URL = ''https://example.com/a''\<rparr>], None)) ''json'' =
      ([\<lparr>Path = ''/a'', URL = ''https://example.com/a''\<rparr>], None) \<and>
   (\<lambda>dat. ([\<lparr>Path = ''/a'', URL = ''https://example.com/a''\<rparr>], None)) ''yaml'' =
      ([\<lparr>Path = ''/a'', URL = ''https://example.com/a''\<rparr>], None) \<and>
   JSONFileHandler (\<lambda>name. (''json'', None))
       (\<lambda>dat. ([\<lparr>Path = ''/a'', URL = ''https://example.com/a''\<rparr>], None)) ''paths.json'' hello =
     YAMLHandler (\<lambda>dat. ([\<lparr>Path = ''/a'', URL = ''https://example.com/a''\<rparr>], None)) ''yaml'' hello \<and>
   snd (YAMLHandler (\<lambda>dat. ([\<lparr>Path = ''/a'', URL = ''https://example.com/a''\<rparr>], None)) ''yaml'' hello) = None"
proof -
  let ?RF = "\<lambda>name::string. (''json'', None::error option)"
  let ?U = "\<lambda>dat::bytes. ([\<lparr>Path = ''/a'', URL = ''https://example.com/a''\<rparr>], None::error option)"
  have h1: "?RF ''paths.json'' = (''json'', None)" by simp
  have h2: "?U ''json'' = ([\<lparr>Path = ''/a'', URL = ''https://example.com/a''\<rparr>], None)" by simp
  have h3: "?U ''yaml'' = ([\<lparr>Path = ''/a'', URL = ''https://example.com/a''\<rparr>], None)" by simp
  from JSON_path_equals_YAML_path [of ?RF "''paths.json''" "''json''" ?U _ ?U "''yaml''" hello, OF h1 h2 h3]
  obtain hj hy where
    "JSONFileHandler ?RF ?U ''paths.json'' hello = (Some hj, None)"
    "YAMLHandler ?U ''yaml'' hello = (Some hy, None)"
    "\<forall>rw r. hj rw r = hy rw r"
    by blast
  moreover from this have "hj = hy" by (intro ext) simp
  ultimately show ?thesis by simp
qed

text \<open>
  Claim C10. For a fixed table and fallback, two requests with the same path get the
  same outcome from the handler of \<^verbatim>\<open>MapHandler\<close>, whatever else differs between them:
  either the path is a key and both are redirected, with status 302 and the same
  \<^verbatim>\<open>Location\<close>, or it is not and both are handed to the fallback. (What \<^verbatim>\<open>http.Redirect\<close>
  adds for a GET or HEAD request, a content type and a body, follows the method and is
  not counted in the outcome the claim names.)
\<close>

theorem MapHandler_outcome_by_path:
  assumes "URLPath r1 = URLPath r2" and "status rw = None"
  shows "(\<exists>destination. pathsToUrls (URLPath r1) = Some destination \<and>
            MapHandler pathsToUrls fallbackHandler rw r1 = Redirect rw r1 destination StatusFound \<and>
            MapHandler pathsToUrls fallbackHandler rw r2 = Redirect rw r2 destination StatusFound \<and>
            status (MapHandler pathsToUrls fallbackHandler rw r1) = Some 302 \<and>
            status (MapHandler pathsToUrls fallbackHandler rw r2) = Some 302 \<and>
            header (MapHandler pathsToUrls fallbackHandler rw r1) ''Location'' =
              header (MapHandler pathsToUrls fallbackHandler rw r2) ''Location'')
       \<or> (pathsToUrls (URLPath r1) = None \<and>
            MapHandler pathsToUrls fallbackHandler rw r1 = fallbackHandler rw r1 \<and>
            MapHandler pathsToUrls fallbackHandler rw r2 = fallbackHandler rw r2)"
proof (cases "pathsToUrls (URLPath r1)")
  case None
  then show ?thesis using assms by (simp add: MapHandler_miss)
next
  case (Some destination)
  have "redirectTarget r1 destination = redirectTarget r2 destination"
    using assms(1) by (rule redirectTarget_reads_path)
  then show ?thesis
    using Some assms
    by (simp add: MapHandler_hit Redirect_status Redirect_Location StatusFound_def)
qed

theorem MapHandler_outcome_by_path_witness:
  "URLPath \<lparr>Method = ''GET'', URLPath = ''/a/b'', RawQuery = '''', RequestURI = ''/a/b'',
        ProtoMajor = 1, ProtoMinor = 1, Host = ''localhost:8080'',
        ReqHeader = Map.empty, ReqBody = ''''\<rparr> =
   URLPath \<lparr>Method = ''POST'', URLPath = ''/a/b'', RawQuery = ''q=1'', RequestURI = ''/a/b?q=1'',
        ProtoMajor = 1, ProtoMinor = 0, Host = ''example.org'',
        ReqHeader = [''Accept'' \<mapsto> [''text/html'']], ReqBody = ''x''\<rparr> \<and>
   status newResponse = None \<and>
   status (MapHandler [''/a/b'' \<mapsto> ''foo''] hello newResponse
     \<lparr>Method = ''GET'', URLPath = ''/a/b'', RawQuery = '''', RequestURI = ''/a/b'',
        ProtoMajor = 1, ProtoMinor = 1, Host = ''localhost:8080'',
        ReqHeader = Map.empty, ReqBody = ''''\<rparr>) = Some 302 \<and>
   status (MapHandler [''/a/b'' \<mapsto> ''foo''] hello newResponse
     \<lparr>Method = ''POST'', URLPath = ''/a/b'', RawQuery = ''q=1'', RequestURI = ''/a/b?q=1'',
        ProtoMajor = 1, ProtoMinor = 0, Host = ''example.org'',
        ReqHeader = [''Accept'' \<mapsto> [''text/html'']], ReqBody = ''x''\<rparr>) = Some 302 \<and>
   header (MapHandler [''/a/b'' \<mapsto> ''foo''] hello newResponse
     \<lparr>Method = ''GET'', URLPath = ''/a/b'', RawQuery = '''', RequestURI = ''/a/b'',
        ProtoMajor = 1, ProtoMinor = 1, Host = ''localhost:8080'',
        ReqHeader = Map.empty, ReqBody = ''''\<rparr>) ''Location'' =
   header (MapHandler [''/a/b'' \<mapsto> ''foo''] hello newResponse
     \<lparr>Method = ''POST'', URLPath = ''/a/b'', RawQuery = ''q=1'', RequestURI = ''/a/b?q=1'',
        ProtoMajor = 1, ProtoMinor = 0, Host = ''example.org'',
        ReqHeader = [''Accept'' \<mapsto> [''text/html'']], ReqBody = ''x''\<rparr>) ''Location''"
proof -
  let ?r1 = "\<lparr>Method = ''GET'', URLPath = ''/a/b'', RawQuery = '''', RequestURI = ''/a/b'',
        ProtoMajor = 1, ProtoMinor = 1, Host = ''localhost:8080'',
        ReqHeader = Map.empty, ReqBody = ''''\<rparr>"
  let ?r2 = "\<lparr>Method = ''POST'', URLPath = ''/a/b'', RawQuery = ''q=1'', RequestURI = ''/a/b?q=1'',
        ProtoMajor = 1, ProtoMinor = 0, Host = ''example.org'',
        ReqHeader = [''Accept'' \<mapsto> [''text/html'']], ReqBody = ''x''\<rparr>"
  let ?T = "[''/a/b'' \<mapsto> ''foo'']"
  have h1: "URLPath ?r1 = URLPath ?r2" by simp
  have h2: "status newResponse = None" by (simp add: newResponse_def)
  have t: "?T (URLPath ?r1) = Some ''foo''" by simp
  from MapHandler_outcome_by_path [OF h1 h2, of ?T hello] t
  have "status (MapHandler ?T hello newResponse ?r1) = Some 302 \<and>
        status (MapHandler ?T hello newResponse ?r2) = Some 302 \<and>
        header (MapHandler ?T hello newResponse ?r1) ''Location'' =
          header (MapHandler ?T hello newResponse ?r2) ''Location''"
    by auto
  with h1 h2 show ?thesis by blast
qed

end
